theory Spec2Isabelle
  imports Complex_Main "HOL-Library.AList"
begin

section \<open>Python values, exceptions and strings\<close>

text \<open>
  Python floats are modelled as real numbers: comparisons and arithmetic are exact, and
  rounding error, infinities and NaN are outside the model.  An exception is its class
  name together with the text that \<^verbatim>\<open>str(e)\<close> yields.
\<close>

datatype py_exception = PyException (exc_class: string) (exc_str: string)

definition ValueError :: "string \<Rightarrow> py_exception" where
  "ValueError msg = PyException ''ValueError'' msg"

datatype py_value =
    PyNone
  | PyBool bool
  | PyInt int
  | PyFloat real
  | PyStr string
  | PyList "py_value list"
  | PyTuple "py_value list"

text \<open>Truth value testing, as \<^verbatim>\<open>if v:\<close> and \<^verbatim>\<open>not v\<close> do it.\<close>

fun truthy :: "py_value \<Rightarrow> bool" where
  "truthy PyNone = False"
| "truthy (PyBool b) = b"
| "truthy (PyInt i) = (i \<noteq> 0)"
| "truthy (PyFloat r) = (r \<noteq> 0)"
| "truthy (PyStr s) = (s \<noteq> [])"
| "truthy (PyList vs) = (vs \<noteq> [])"
| "truthy (PyTuple vs) = (vs \<noteq> [])"

text \<open>The character \<^verbatim>\<open>'\<close>, and \<^verbatim>\<open>str(n)\<close> for a non-negative integer.\<close>

definition quote :: string where
  "quote = [CHR 0x27]"

definition digit_char :: "nat \<Rightarrow> char" where
  "digit_char d = ''0123456789'' ! (d mod 10)"

function str_nat :: "nat \<Rightarrow> string" where
  "str_nat n = (if n < 10 then [digit_char n] else str_nat (n div 10) @ [digit_char (n mod 10)])"
  by pat_completeness auto
termination
  by (relation "measure (\<lambda>n. n)") auto

declare str_nat.simps [simp del]

text \<open>\<^verbatim>\<open>sep.join(parts)\<close>.\<close>

fun join :: "string \<Rightarrow> string list \<Rightarrow> string" where
  "join sep [] = []"
| "join sep [s] = s"
| "join sep (s # t # ts) = s @ sep @ join sep (t # ts)"

text \<open>\<^verbatim>\<open>s.lower()\<close> on the ASCII letters of an identifier.\<close>

definition lower_char :: "char \<Rightarrow> char" where
  "lower_char c =
     (case map_of (zip ''ABCDEFGHIJKLMNOPQRSTUVWXYZ'' ''abcdefghijklmnopqrstuvwxyz'') c of
        None \<Rightarrow> c
      | Some l \<Rightarrow> l)"

definition lower :: "string \<Rightarrow> string" where
  "lower s = map lower_char s"

text \<open>\<^verbatim>\<open>s.endswith(suffix)\<close>.\<close>

definition endswith :: "string \<Rightarrow> string \<Rightarrow> bool" where
  "endswith s suffix =
     (length suffix \<le> length s \<and> drop (length s - length suffix) s = suffix)"

text \<open>
  The built-in \<^verbatim>\<open>round(x, ndigits)\<close> on the real value: to the nearest multiple of
  \<open>10 ^ -ndigits\<close>, a tie going to the even neighbour.
  A tie is a tie of the exact real value; the binary float nearest to such a value
  is seldom one.
\<close>

definition py_round :: "real \<Rightarrow> nat \<Rightarrow> real" where
  "py_round v ndigits =
     (let y = v * 10 ^ ndigits; f = \<lfloor>y\<rfloor>; d = y - of_int f;
          m = (if d < 1 / 2 then f else if 1 / 2 < d then f + 1
               else if even f then f else f + 1)
      in of_int m / 10 ^ ndigits)"

text \<open>
  Float formatting (\<^verbatim>\<open>f"{v:.3f}"\<close>, \<^verbatim>\<open>f"{v:.1%}"\<close>, \<^verbatim>\<open>str(v)\<close>) belongs to the
  Python runtime; the checkers take it as a parameter.
\<close>

record float_format =
  fmt_3f :: "real \<Rightarrow> string"
  fmt_pct1 :: "real \<Rightarrow> string"
  str_float :: "real \<Rightarrow> string"


section \<open>Severity (core/severity.py)\<close>

datatype Severity = INFO | WARNING | ERROR

fun severity_value :: "Severity \<Rightarrow> int" where
  "severity_value INFO = 1"
| "severity_value WARNING = 2"
| "severity_value ERROR = 3"

fun severity_name :: "Severity \<Rightarrow> string" where
  "severity_name INFO = ''INFO''"
| "severity_name WARNING = ''WARNING''"
| "severity_name ERROR = ''ERROR''"


section \<open>ValidationResult (core/result.py)\<close>

record validation_result =
  checker_name :: string
  severity :: Severity
  object_name :: string
  message :: string
  details :: "(string \<times> py_value) list"
  fix_hint :: "string option"

text \<open>
  The dataclass constructor followed by \<^verbatim>\<open>__post_init__\<close>: the two checks, in the
  source's order, each raising \<^verbatim>\<open>ValueError\<close>.
\<close>

definition ValidationResult ::
  "string \<Rightarrow> Severity \<Rightarrow> string \<Rightarrow> string \<Rightarrow> (string \<times> py_value) list \<Rightarrow> string option
     \<Rightarrow> py_exception + validation_result" where
  "ValidationResult cn sev on msg det fh =
     (if cn = [] then Inl (ValueError ''checker_name cannot be empty'')
      else if msg = [] then Inl (ValueError ''message cannot be empty'')
      else Inr \<lparr>checker_name = cn, severity = sev, object_name = on, message = msg,
                details = det, fix_hint = fh\<rparr>)"

definition is_error :: "validation_result \<Rightarrow> bool" where
  "is_error r = (severity r = ERROR)"

definition is_warning :: "validation_result \<Rightarrow> bool" where
  "is_warning r = (severity r = WARNING)"


section \<open>The host's objects\<close>

text \<open>
  What the checkers read of a Blender object.  A polygon carries the values the host
  computes for it: its area, its normal and the median centre of the face built
  from it (\<^verbatim>\<open>face.calc_center_median()\<close>).  Custom properties are a dictionary
  from property names to values.
\<close>

datatype Vector = Vector (vec_x: real) (vec_y: real) (vec_z: real)

text \<open>Iterating over a vector, as \<^verbatim>\<open>tuple(vec)\<close> and \<^verbatim>\<open>zip(vec, target)\<close> do.\<close>

definition components :: "Vector \<Rightarrow> real list" where
  "components v = [vec_x v, vec_y v, vec_z v]"

record polygon =
  loop_total :: nat
  poly_area :: real
  material_index :: nat
  poly_normal :: Vector
  poly_center_median :: Vector

record mesh =
  polygons :: "polygon list"
  vertices :: "Vector list"

record material_slot =
  slot_name :: string
  slot_material :: "string option"

record bpy_object =
  obj_name :: string
  obj_type :: string
  obj_visible :: bool
  obj_scale :: Vector
  obj_rotation_euler :: Vector
  obj_data :: mesh
  obj_material_slots :: "material_slot list"
  obj_props :: "string \<rightharpoonup> py_value"


section \<open>BaseChecker (core/base\_checker.py)\<close>

text \<open>
  The class attributes of a checker, and a checker: the attributes together with its
  \<^verbatim>\<open>check\<close> method, which returns its findings or raises.
\<close>

record checker_base =
  class_name :: string
  name :: string
  description :: string
  default_severity :: Severity
  supported_types :: "string set"
  supports_exclusion :: bool

record checker = checker_base +
  check :: "bpy_object \<Rightarrow> py_exception + validation_result list"


definition is_supported :: "'a checker_base_scheme \<Rightarrow> bpy_object \<Rightarrow> bool" where
  "is_supported self obj = (obj_type obj \<in> supported_types self)"

definition get_id :: "'a checker_base_scheme \<Rightarrow> string" where
  "get_id self =
     (let cn = class_name self;
          cn' = (if endswith cn ''Checker'' then take (length cn - 7) cn else cn)
      in lower cn')"

text \<open>
  \<^verbatim>\<open>is_excluded\<close> returns what \<^verbatim>\<open>obj.get(prop_name, False)\<close> returns: the stored
  value, or \<^verbatim>\<open>False\<close> when the property is absent.  The caller tests its truth value.
\<close>

definition is_excluded :: "'a checker_base_scheme \<Rightarrow> bpy_object \<Rightarrow> py_value" where
  "is_excluded self obj =
     (if \<not> supports_exclusion self then PyBool False
      else
        let prop_name = ''unity_validator_exclude_'' @ get_id self
        in (case obj_props obj prop_name of None \<Rightarrow> PyBool False | Some v \<Rightarrow> v))"

definition create_result ::
  "'a checker_base_scheme \<Rightarrow> bpy_object \<Rightarrow> string \<Rightarrow> Severity option
     \<Rightarrow> (string \<times> py_value) list option \<Rightarrow> string option
     \<Rightarrow> py_exception + validation_result" where
  "create_result self obj msg sev det fh =
     ValidationResult (name self)
       (case sev of None \<Rightarrow> default_severity self | Some s \<Rightarrow> s)
       (obj_name obj) msg
       (case det of None \<Rightarrow> [] | Some d \<Rightarrow> d)
       fh"


section \<open>CheckerRegistry (core/registry.py)\<close>

text \<open>
  The two class-level dictionaries, as association lists in insertion order: assigning
  to a key that is present replaces its value where it stands, assigning to a new key
  appends it (\<^const>\<open>AList.update\<close>).  The logger's records are kept as well.
  \<^verbatim>\<open>register\<close> instantiates the class, which may raise, and hands the class back
  unchanged; the model returns the registry it leaves behind.
\<close>

record registry =
  checkers :: "(string \<times> checker) list"
  checker_classes :: "(string \<times> checker) list"
  log :: "(string \<times> string) list"


definition unregister :: "string \<Rightarrow> registry \<Rightarrow> registry \<times> bool" where
  "unregister checker_id reg =
     (if checker_id \<in> set (map fst (checkers reg))
      then (reg\<lparr>checkers := AList.delete checker_id (checkers reg),
                 checker_classes := AList.delete checker_id (checker_classes reg)\<rparr>, True)
      else (reg, False))"

definition get :: "string \<Rightarrow> registry \<Rightarrow> checker option" where
  "get checker_id reg = map_of (checkers reg) checker_id"

definition get_all :: "registry \<Rightarrow> checker list" where
  "get_all reg = map snd (checkers reg)"


definition clear :: "registry \<Rightarrow> registry" where
  "clear reg = reg\<lparr>checkers := [], checker_classes := []\<rparr>"

definition count :: "registry \<Rightarrow> nat" where
  "count reg = length (checkers reg)"


section \<open>The validation operator (utils/helpers.py, operators/validate.py)\<close>

record result_item =
  item_checker_name :: string
  item_severity :: string
  item_object_name :: string
  item_message :: string
  item_fix_hint :: string

record bpy_context =
  data_objects :: "bpy_object list"
  selected_objects :: "bpy_object list"
  unity_validator_results :: "result_item list"

definition get_mesh_objects :: "bool \<Rightarrow> bool \<Rightarrow> bpy_context \<Rightarrow> bpy_object list" where
  "get_mesh_objects sel_only vis_only ctx =
     (let source = (if sel_only then selected_objects ctx else data_objects ctx)
      in filter (\<lambda>obj. \<not> obj_type obj \<noteq> ''MESH'' \<and> \<not> (vis_only \<and> \<not> obj_visible obj)) source)"

record validate_operator =
  selected_only :: bool
  visible_only :: bool

text \<open>
  The loop over the checkers for one object, and the loop over the objects.  The state
  is the list \<^verbatim>\<open>all_results\<close> and the reports made through \<^verbatim>\<open>self.report\<close>, each a
  report type and its text.
  \<^verbatim>\<open>except Exception\<close> catches whatever \<^verbatim>\<open>check\<close> raises; interpreter exits
  (\<^verbatim>\<open>KeyboardInterrupt\<close>, \<^verbatim>\<open>SystemExit\<close>) are not exceptions of the model.
\<close>

fun run_checkers ::
  "bpy_object \<Rightarrow> checker list \<Rightarrow> validation_result list \<times> (string \<times> string) list
     \<Rightarrow> validation_result list \<times> (string \<times> string) list" where
  "run_checkers obj [] st = st"
| "run_checkers obj (c # cs) (all_results, reports) =
     (if \<not> is_supported c obj then run_checkers obj cs (all_results, reports)
      else if truthy (is_excluded c obj) then run_checkers obj cs (all_results, reports)
      else
        (case check c obj of
           Inr results \<Rightarrow> run_checkers obj cs (all_results @ results, reports)
         | Inl e \<Rightarrow>
             run_checkers obj cs
               (all_results,
                reports @ [(''WARNING'',
                  ''Checker '' @ quote @ name c @ quote @ '' failed on '' @ quote @ obj_name obj
                    @ quote @ '': '' @ exc_str e)])))"

fun run_objects ::
  "bpy_object list \<Rightarrow> checker list \<Rightarrow> validation_result list \<times> (string \<times> string) list
     \<Rightarrow> validation_result list \<times> (string \<times> string) list" where
  "run_objects [] cs st = st"
| "run_objects (obj # objs) cs st = run_objects objs cs (run_checkers obj cs st)"

definition store_item :: "validation_result \<Rightarrow> result_item" where
  "store_item r =
     \<lparr>item_checker_name = checker_name r,
      item_severity = severity_name (severity r),
      item_object_name = object_name r,
      item_message = message r,
      item_fix_hint = (case fix_hint r of None \<Rightarrow> [] | Some h \<Rightarrow> h)\<rparr>"

definition store_results :: "bpy_context \<Rightarrow> validation_result list \<Rightarrow> bpy_context" where
  "store_results ctx results = ctx\<lparr>unity_validator_results := map store_item results\<rparr>"

definition summary_report :: "validation_result list \<Rightarrow> string \<times> string" where
  "summary_report all_results =
     (let error_count = length (filter (\<lambda>r. severity r = ERROR) all_results);
          warning_count = length (filter (\<lambda>r. severity r = WARNING) all_results);
          info_count = length (filter (\<lambda>r. severity r = INFO) all_results)
      in if error_count > 0 then
           (''ERROR'', ''Validation complete: '' @ str_nat error_count @ '' errors, ''
              @ str_nat warning_count @ '' warnings, '' @ str_nat info_count @ '' info'')
         else if warning_count > 0 then
           (''WARNING'', ''Validation complete: '' @ str_nat warning_count @ '' warnings, ''
              @ str_nat info_count @ '' info'')
         else if info_count > 0 then
           (''INFO'', ''Validation complete: '' @ str_nat info_count @ '' info items'')
         else (''INFO'', ''Validation complete: No issues found!''))"

record outcome =
  status :: string
  reported :: "(string \<times> string) list"
  context_after :: bpy_context

definition execute :: "validate_operator \<Rightarrow> bpy_context \<Rightarrow> registry \<Rightarrow> outcome" where
  "execute self ctx reg =
     (let objects = get_mesh_objects (selected_only self) (visible_only self) ctx
      in if objects = [] then
           \<lparr>status = ''CANCELLED'', reported = [(''WARNING'', ''No mesh objects to validate'')],
            context_after = ctx\<rparr>
         else
           let cs = get_all reg
           in if cs = [] then
                \<lparr>status = ''CANCELLED'', reported = [(''ERROR'', ''No checkers registered'')],
                 context_after = ctx\<rparr>
              else
                let (all_results, reports) = run_objects objects cs ([], [])
                in \<lparr>status = ''FINISHED'',
                    reported = reports @ [summary_report all_results],
                    context_after = store_results ctx all_results\<rparr>)"

text \<open>
  What one (object, checker) pair contributes on its own: the findings it adds, and the
  fault it reports.
\<close>

definition pair_results :: "bpy_object \<Rightarrow> checker \<Rightarrow> validation_result list" where
  "pair_results obj c =
     (if is_supported c obj \<and> \<not> truthy (is_excluded c obj)
      then (case check c obj of Inr results \<Rightarrow> results | Inl e \<Rightarrow> [])
      else [])"

definition fault_report :: "bpy_object \<Rightarrow> checker \<Rightarrow> string \<Rightarrow> string \<times> string" where
  "fault_report obj c cause =
     (''WARNING'', ''Checker '' @ quote @ name c @ quote @ '' failed on '' @ quote @ obj_name obj
        @ quote @ '': '' @ cause)"

definition pair_faults :: "bpy_object \<Rightarrow> checker \<Rightarrow> (string \<times> string) list" where
  "pair_faults obj c =
     (if is_supported c obj \<and> \<not> truthy (is_excluded c obj)
      then (case check c obj of Inr results \<Rightarrow> [] | Inl e \<Rightarrow> [fault_report obj c (exc_str e)])
      else [])"


text \<open>
  A checker made fault-free: where its \<^verbatim>\<open>check\<close> raises, the fault-free one returns no
  finding; elsewhere they agree.  A registry with every checker made fault-free.
\<close>

definition recovered :: "checker \<Rightarrow> checker" where
  "recovered c =
     c\<lparr>check := (\<lambda>obj. case check c obj of Inl e \<Rightarrow> Inr [] | Inr results \<Rightarrow> Inr results)\<rparr>"

definition recovered_registry :: "registry \<Rightarrow> registry" where
  "recovered_registry reg = reg\<lparr>checkers := map (\<lambda>(k, c). (k, recovered c)) (checkers reg)\<rparr>"


section \<open>TransformChecker (checkers/transform.py)\<close>

definition FLOAT_TOLERANCE :: real where
  "FLOAT_TOLERANCE = 1 / 1000000"

definition is_nearly_equal :: "real \<Rightarrow> real \<Rightarrow> real \<Rightarrow> bool" where
  "is_nearly_equal a b tolerance = (\<bar>a - b\<bar> < tolerance)"

definition is_vector_nearly_equal :: "Vector \<Rightarrow> real list \<Rightarrow> real \<Rightarrow> bool" where
  "is_vector_nearly_equal vec target tolerance =
     list_all (\<lambda>(v, t). is_nearly_equal v t tolerance) (zip (components vec) target)"

definition TransformChecker_base :: checker_base where
  "TransformChecker_base =
     \<lparr>class_name = ''TransformChecker'', name = ''Transform'',
      description = ''Check for unapplied transforms and negative scale'',
      default_severity = WARNING, supported_types = {''MESH''}, supports_exclusion = True\<rparr>"

record transform_config =
  cfg_check_scale :: bool
  cfg_check_rotation :: bool
  cfg_check_negative_scale :: bool

definition transform_defaults :: transform_config where
  "transform_defaults =
     \<lparr>cfg_check_scale = True, cfg_check_rotation = True, cfg_check_negative_scale = True\<rparr>"

definition vector_tuple :: "Vector \<Rightarrow> py_value" where
  "vector_tuple v = PyTuple (map PyFloat (components v))"

definition check_negative_scale :: "bpy_object \<Rightarrow> py_exception + validation_result option" where
  "check_negative_scale obj =
     (let scale = obj_scale obj;
          negative_axes = (if vec_x scale < 0 then [''X''] else [])
                        @ (if vec_y scale < 0 then [''Y''] else [])
                        @ (if vec_z scale < 0 then [''Z''] else [])
      in if negative_axes \<noteq> [] then
           let is_inverted = (length negative_axes mod 2 = 1)
           in map_sum id Some
                (create_result TransformChecker_base obj
                   (''Negative scale on '' @ join '', '' negative_axes @ '' axis'')
                   (Some ERROR)
                   (Some [(''scale'', vector_tuple scale),
                          (''negative_axes'', PyList (map PyStr negative_axes)),
                          (''normals_inverted'', PyBool is_inverted)])
                   (Some ''Apply scale with Ctrl+A > Scale, or use Object > Apply > Scale''))
         else Inr None)"

definition check_unapplied_scale ::
  "float_format \<Rightarrow> bpy_object \<Rightarrow> py_exception + validation_result option" where
  "check_unapplied_scale F obj =
     (let scale = obj_scale obj
      in if \<not> is_vector_nearly_equal scale [1, 1, 1] FLOAT_TOLERANCE then
           map_sum id Some
             (create_result TransformChecker_base obj
                (''Unapplied scale: ('' @ fmt_3f F (vec_x scale) @ '', '' @ fmt_3f F (vec_y scale)
                   @ '', '' @ fmt_3f F (vec_z scale) @ '')'')
                (Some WARNING)
                (Some [(''scale'', vector_tuple scale),
                       (''expected'', PyTuple [PyFloat 1, PyFloat 1, PyFloat 1])])
                (Some ''Apply scale with Ctrl+A > Scale''))
         else Inr None)"

definition degree_sign :: string where
  "degree_sign = [CHR 0xC2, CHR 0xB0]"

definition check_unapplied_rotation ::
  "float_format \<Rightarrow> bpy_object \<Rightarrow> py_exception + validation_result option" where
  "check_unapplied_rotation F obj =
     (let rotation = obj_rotation_euler obj
      in if \<not> is_vector_nearly_equal rotation [0, 0, 0] FLOAT_TOLERANCE then
           let rot_degrees = map (\<lambda>r. py_round (r * 572958 / 10000) 2) (components rotation)
           in map_sum id Some
                (create_result TransformChecker_base obj
                   (''Unapplied rotation: ('' @ str_float F (rot_degrees ! 0) @ degree_sign @ '', ''
                      @ str_float F (rot_degrees ! 1) @ degree_sign @ '', ''
                      @ str_float F (rot_degrees ! 2) @ degree_sign @ '')'')
                   (Some INFO)
                   (Some [(''rotation_euler'', vector_tuple rotation),
                          (''rotation_degrees'', PyTuple (map PyFloat rot_degrees)),
                          (''expected'', PyTuple [PyFloat 0, PyFloat 0, PyFloat 0])])
                   (Some ''Apply rotation with Ctrl+A > Rotation (if needed)''))
         else Inr None)"

text \<open>\<^verbatim>\<open>if result: results.append(result)\<close>: a result object is always true.\<close>

fun append_result :: "validation_result list \<Rightarrow> validation_result option \<Rightarrow> validation_result list" where
  "append_result results None = results"
| "append_result results (Some r) = results @ [r]"

definition TransformChecker_check ::
  "transform_config \<Rightarrow> float_format \<Rightarrow> bpy_object \<Rightarrow> py_exception + validation_result list" where
  "TransformChecker_check cfg F obj =
     (case (if cfg_check_negative_scale cfg then check_negative_scale obj else Inr None) of
        Inl e \<Rightarrow> Inl e
      | Inr negative_result \<Rightarrow>
     (case (if cfg_check_scale cfg then check_unapplied_scale F obj else Inr None) of
        Inl e \<Rightarrow> Inl e
      | Inr scale_result \<Rightarrow>
     (case (if cfg_check_rotation cfg then check_unapplied_rotation F obj else Inr None) of
        Inl e \<Rightarrow> Inl e
      | Inr rotation_result \<Rightarrow>
          Inr (append_result (append_result (append_result [] negative_result) scale_result)
                 rotation_result))))"

definition TransformChecker :: "transform_config \<Rightarrow> float_format \<Rightarrow> checker" where
  "TransformChecker cfg F = checker_base.extend TransformChecker_base
     (checker.fields (TransformChecker_check cfg F))"


section \<open>MaterialChecker (checkers/materials.py)\<close>

definition MaterialChecker_base :: checker_base where
  "MaterialChecker_base =
     \<lparr>class_name = ''MaterialChecker'', name = ''Material'',
      description = ''Check for missing or improperly assigned materials'',
      default_severity = WARNING, supported_types = {''MESH''}, supports_exclusion = True\<rparr>"

definition find_empty_slots :: "bpy_object \<Rightarrow> nat list" where
  "find_empty_slots obj =
     map fst (filter (\<lambda>(i, slot). slot_material slot = None)
                (enumerate 0 (obj_material_slots obj)))"

definition find_unused_slots :: "bpy_object \<Rightarrow> mesh \<Rightarrow> nat list" where
  "find_unused_slots obj m =
     (if polygons m = [] then []
      else
        let used_indices = set (map material_index (polygons m))
        in map fst (filter (\<lambda>(i, slot). slot_material slot \<noteq> None \<and> i \<notin> used_indices)
                      (enumerate 0 (obj_material_slots obj))))"

definition nat_list :: "nat list \<Rightarrow> py_value" where
  "nat_list ns = PyList (map (\<lambda>n. PyInt (int n)) ns)"

definition MaterialChecker_check :: "bpy_object \<Rightarrow> py_exception + validation_result list" where
  "MaterialChecker_check obj =
     (if obj_type obj \<noteq> ''MESH'' then Inr []
      else
        let m = obj_data obj; slots = obj_material_slots obj
        in if slots = [] then
             map_sum id (\<lambda>r. [r])
               (create_result MaterialChecker_base obj ''No material slots'' (Some ERROR)
                  (Some [(''slot_count'', PyInt 0)])
                  (Some ''Add a material in the Material Properties panel''))
           else
             let empty_slots = find_empty_slots obj
             in
             (case (if empty_slots \<noteq> [] then
                      map_sum id Some
                        (create_result MaterialChecker_base obj
                           (''Empty material slot(s): '' @ join '', '' (map str_nat empty_slots))
                           (Some WARNING)
                           (Some [(''empty_slot_indices'', nat_list empty_slots),
                                  (''total_slots'', PyInt (int (length slots)))])
                           (Some ''Assign materials to empty slots or remove unused slots''))
                    else Inr None) of
                Inl e \<Rightarrow> Inl e
              | Inr empty_result \<Rightarrow>
             let all_empty = list_all (\<lambda>slot. slot_material slot = None) slots
             in
             (case (if all_empty \<and> length slots > 0 then
                      map_sum id Some
                        (create_result MaterialChecker_base obj ''All material slots are empty''
                           (Some ERROR)
                           (Some [(''slot_count'', PyInt (int (length slots)))])
                           (Some ''Assign at least one material''))
                    else Inr None) of
                Inl e \<Rightarrow> Inl e
              | Inr all_empty_result \<Rightarrow>
             let unused_slots = find_unused_slots obj m
             in
             (case (if unused_slots \<noteq> [] then
                      let slot_names =
                            map (\<lambda>i. let n = slot_name (slots ! i)
                                      in if n \<noteq> [] then n else ''Slot '' @ str_nat i)
                              unused_slots
                      in map_sum id Some
                           (create_result MaterialChecker_base obj
                              (''Unused material slot(s): '' @ join '', '' slot_names)
                              (Some INFO)
                              (Some [(''unused_slot_indices'', nat_list unused_slots),
                                     (''unused_slot_names'', PyList (map PyStr slot_names))])
                              (Some ''Remove unused material slots or assign them to faces''))
                    else Inr None) of
                Inl e \<Rightarrow> Inl e
              | Inr unused_result \<Rightarrow>
                  Inr (append_result (append_result (append_result [] empty_result)
                         all_empty_result) unused_result)))))"

definition MaterialChecker :: checker where
  "MaterialChecker = checker_base.extend MaterialChecker_base
     (checker.fields MaterialChecker_check)"


section \<open>GeometryChecker (checkers/geometry.py)\<close>

text \<open>
  The collecting loop the three face checks share:
  \<^verbatim>\<open>for x in xs: if P(x): found.append(x); if len(found) >= K: break\<close>.
  The test against the cap comes after the append.
\<close>

fun collect_capped :: "('a \<Rightarrow> bool) \<Rightarrow> int \<Rightarrow> 'a list \<Rightarrow> 'a list \<Rightarrow> 'a list" where
  "collect_capped P K [] found = found"
| "collect_capped P K (x # xs) found =
     (if P x then
        let found' = found @ [x]
        in if int (length found') \<ge> K then found' else collect_capped P K xs found'
      else collect_capped P K xs found)"

definition str_int :: "int \<Rightarrow> string" where
  "str_int k = (if k < 0 then ''-'' @ str_nat (nat (- k)) else str_nat (nat k))"

definition GeometryChecker_base :: checker_base where
  "GeometryChecker_base =
     \<lparr>class_name = ''GeometryChecker'', name = ''Geometry'',
      description = ''Check for N-gons and problematic geometry'',
      default_severity = WARNING, supported_types = {''MESH''}, supports_exclusion = True\<rparr>"

record geometry_config =
  cfg_check_ngons :: bool
  cfg_check_small_faces :: bool
  small_face_threshold :: real
  max_reported_faces :: int

definition geometry_defaults :: geometry_config where
  "geometry_defaults =
     \<lparr>cfg_check_ngons = True, cfg_check_small_faces = True,
      small_face_threshold = 1 / 10000, max_reported_faces = 10\<rparr>"

definition check_ngons ::
  "geometry_config \<Rightarrow> bpy_object \<Rightarrow> mesh \<Rightarrow> py_exception + validation_result option" where
  "check_ngons cfg obj m =
     (let hits = collect_capped (\<lambda>(i, poly). loop_total poly > 4) (max_reported_faces cfg)
                   (enumerate 0 (polygons m)) [];
          ngon_indices = map fst hits;
          ngon_vertex_counts = map (\<lambda>(i, poly). loop_total poly) hits
      in if ngon_indices = [] then Inr None
         else
           let total_ngons = length (filter (\<lambda>p. loop_total p > 4) (polygons m));
               msg = (if int total_ngons \<le> max_reported_faces cfg
                      then str_nat total_ngons @ '' N-gon(s) found''
                      else str_nat total_ngons @ '' N-gon(s) found (showing first ''
                             @ str_int (max_reported_faces cfg) @ '')'')
           in map_sum id Some
                (create_result GeometryChecker_base obj msg (Some WARNING)
                   (Some [(''total_ngons'', PyInt (int total_ngons)),
                          (''face_indices'', nat_list ngon_indices),
                          (''vertex_counts'', nat_list ngon_vertex_counts)])
                   (Some ''Select N-gons: Edit Mode > Select > All by Trait > Faces by Sides'')))"

definition check_small_faces ::
  "geometry_config \<Rightarrow> bpy_object \<Rightarrow> mesh \<Rightarrow> py_exception + validation_result option" where
  "check_small_faces cfg obj m =
     (let hits = collect_capped (\<lambda>(i, poly). poly_area poly < small_face_threshold cfg)
                   (max_reported_faces cfg) (enumerate 0 (polygons m)) [];
          small_face_indices = map fst hits;
          small_face_areas = map (\<lambda>(i, poly). poly_area poly) hits
      in if small_face_indices = [] then Inr None
         else
           let total_small =
                 length (filter (\<lambda>p. poly_area p < small_face_threshold cfg) (polygons m))
           in map_sum id Some
                (create_result GeometryChecker_base obj
                   (str_nat total_small @ '' extremely small face(s) found'') (Some INFO)
                   (Some [(''total_small_faces'', PyInt (int total_small)),
                          (''face_indices'', nat_list small_face_indices),
                          (''face_areas'', PyList (map PyFloat small_face_areas)),
                          (''threshold'', PyFloat (small_face_threshold cfg))])
                   (Some ''Consider merging or dissolving tiny faces'')))"




section \<open>FaceOrientationChecker (checkers/face\_orientation.py)\<close>

text \<open>
  The host's vector arithmetic.  \<^verbatim>\<open>normalized()\<close> divides by the length and yields
  the zero vector for a vector of (nearly) no length.
\<close>

definition vec_add :: "Vector \<Rightarrow> Vector \<Rightarrow> Vector" where
  "vec_add a b = Vector (vec_x a + vec_x b) (vec_y a + vec_y b) (vec_z a + vec_z b)"

definition vec_sub :: "Vector \<Rightarrow> Vector \<Rightarrow> Vector" where
  "vec_sub a b = Vector (vec_x a - vec_x b) (vec_y a - vec_y b) (vec_z a - vec_z b)"

definition vec_div :: "Vector \<Rightarrow> real \<Rightarrow> Vector" where
  "vec_div a d = Vector (vec_x a / d) (vec_y a / d) (vec_z a / d)"

definition dot :: "Vector \<Rightarrow> Vector \<Rightarrow> real" where
  "dot a b = vec_x a * vec_x b + vec_y a * vec_y b + vec_z a * vec_z b"

definition normalized :: "Vector \<Rightarrow> Vector" where
  "normalized a =
     (let d = dot a a in if d > 1 / 10 ^ 35 then vec_div a (sqrt d) else Vector 0 0 0)"

record bm_face =
  face_index :: nat
  face_normal :: Vector
  face_center_median :: Vector

record bmesh =
  bm_verts :: "Vector list"
  bm_faces :: "bm_face list"

text \<open>\<^verbatim>\<open>bm.from_mesh(mesh)\<close>: one face for each polygon, in order, indexed from 0.\<close>

definition from_mesh :: "mesh \<Rightarrow> bmesh" where
  "from_mesh m =
     \<lparr>bm_verts = vertices m,
      bm_faces = map (\<lambda>(i, p). \<lparr>face_index = i, face_normal = poly_normal p,
                                 face_center_median = poly_center_median p\<rparr>)
                   (enumerate 0 (polygons m))\<rparr>"

definition FaceOrientationChecker_base :: checker_base where
  "FaceOrientationChecker_base =
     \<lparr>class_name = ''FaceOrientationChecker'', name = ''Face Orientation'',
      description = ''Check for inverted or inconsistent face orientations'',
      default_severity = WARNING, supported_types = {''MESH''}, supports_exclusion = True\<rparr>"

definition mesh_center :: "bmesh \<Rightarrow> Vector" where
  "mesh_center bm = vec_div (foldl vec_add (Vector 0 0 0) (bm_verts bm)) (real (length (bm_verts bm)))"

text \<open>The test both loops apply to a face: its normal points towards the mesh centre.\<close>

definition points_inward :: "Vector \<Rightarrow> bm_face \<Rightarrow> bool" where
  "points_inward center face =
     (let face_center = face_center_median face;
          to_center = vec_sub center face_center
      in dot (face_normal face) (normalized to_center) > 7 / 10)"

definition check_inverted_faces ::
  "int \<Rightarrow> float_format \<Rightarrow> bpy_object \<Rightarrow> mesh \<Rightarrow> py_exception + validation_result option" where
  "check_inverted_faces max_reported F obj m =
     (let bm = from_mesh m
      in if bm_verts bm = [] then Inr None
         else
           let center = mesh_center bm;
               potentially_inverted =
                 map face_index (collect_capped (points_inward center) max_reported (bm_faces bm) [])
           in if potentially_inverted = [] then Inr None
              else
                let total_inverted = length (filter (points_inward center) (bm_faces bm));
                    total_faces = length (bm_faces bm);
                    inverted_ratio = (if total_faces > 0
                                      then real total_inverted / real total_faces else 0)
                in if inverted_ratio < 5 / 100 \<and> total_inverted < 5 then
                     map_sum id Some
                       (create_result FaceOrientationChecker_base obj
                          (str_nat total_inverted @ '' face(s) may have inverted normals'')
                          (Some INFO)
                          (Some [(''potentially_inverted_count'', PyInt (int total_inverted)),
                                 (''total_faces'', PyInt (int total_faces)),
                                 (''face_indices'', nat_list potentially_inverted),
                                 (''inverted_ratio'', PyFloat (py_round inverted_ratio 3))])
                          (Some ''Check normals: Viewport Overlays > Face Orientation''))
                   else
                     map_sum id Some
                       (create_result FaceOrientationChecker_base obj
                          (str_nat total_inverted @ '' face(s) may have inverted normals (''
                             @ fmt_pct1 F inverted_ratio @ '')'')
                          (Some WARNING)
                          (Some [(''potentially_inverted_count'', PyInt (int total_inverted)),
                                 (''total_faces'', PyInt (int total_faces)),
                                 (''face_indices'', nat_list potentially_inverted),
                                 (''inverted_ratio'', PyFloat (py_round inverted_ratio 3))])
                          (Some ''Fix normals: Edit Mode > Mesh > Normals > Recalculate Outside'')))"

definition FaceOrientationChecker_check ::
  "int \<Rightarrow> float_format \<Rightarrow> bpy_object \<Rightarrow> py_exception + validation_result list" where
  "FaceOrientationChecker_check max_reported F obj =
     (if obj_type obj \<noteq> ''MESH'' then Inr []
      else
        let m = obj_data obj
        in if polygons m = [] then Inr []
           else
             (case check_inverted_faces max_reported F obj m of
                Inl e \<Rightarrow> Inl e
              | Inr inverted_result \<Rightarrow> Inr (append_result [] inverted_result)))"

definition FaceOrientationChecker :: "int \<Rightarrow> float_format \<Rightarrow> checker" where
  "FaceOrientationChecker max_reported F = checker_base.extend FaceOrientationChecker_base
     (checker.fields (FaceOrientationChecker_check max_reported F))"

text \<open>
  The faces the heuristic flags in a mesh: those the counting loop of
  \<^verbatim>\<open>_check_inverted_faces\<close> counts.
\<close>

definition flagged_faces :: "mesh \<Rightarrow> bm_face list" where
  "flagged_faces m =
     (let bm = from_mesh m in filter (points_inward (mesh_center bm)) (bm_faces bm))"



section \<open>Example objects\<close>

text \<open>
  Concrete inputs on which the theorems below are instantiated.  The example float
  formatting prints every number alike; no statement below depends on it.
\<close>

definition example_format :: float_format where
  "example_format =
     \<lparr>fmt_3f = (\<lambda>v. ''0.000''), fmt_pct1 = (\<lambda>v. ''0.0%''), str_float = (\<lambda>v. ''0.0'')\<rparr>"

definition cube :: bpy_object where
  "cube = \<lparr>obj_name = ''Cube'', obj_type = ''MESH'', obj_visible = True,
            obj_scale = Vector 1 1 1, obj_rotation_euler = Vector 0 0 0,
            obj_data = \<lparr>polygons = [], vertices = []\<rparr>,
            obj_material_slots = [], obj_props = Map.empty\<rparr>"

definition mirrored_x :: bpy_object where
  "mirrored_x = cube\<lparr>obj_scale := Vector (- 1) 1 1\<rparr>"

definition mirrored_xy :: bpy_object where
  "mirrored_xy = cube\<lparr>obj_scale := Vector (- 1) (- 1) 1\<rparr>"





definition red_slot :: material_slot where
  "red_slot = \<lparr>slot_name = ''Red'', slot_material = Some ''Red''\<rparr>"

definition empty_slot :: material_slot where
  "empty_slot = \<lparr>slot_name = '''', slot_material = None\<rparr>"

definition quad :: polygon where
  "quad = \<lparr>loop_total = 4, poly_area = 1, material_index = 1,
           poly_normal = Vector 0 0 1, poly_center_median = Vector 0 0 1\<rparr>"

definition painted_unused :: bpy_object where
  "painted_unused = cube\<lparr>obj_data := \<lparr>polygons = [quad], vertices = []\<rparr>,
                          obj_material_slots := [red_slot]\<rparr>"

definition painted_no_faces :: bpy_object where
  "painted_no_faces = cube\<lparr>obj_material_slots := [red_slot]\<rparr>"

definition unpainted :: bpy_object where
  "unpainted = cube\<lparr>obj_data := \<lparr>polygons = [quad], vertices = []\<rparr>,
                     obj_material_slots := [empty_slot, empty_slot]\<rparr>"

definition pentagon :: polygon where
  "pentagon = \<lparr>loop_total = 5, poly_area = 1, material_index = 0,
               poly_normal = Vector 0 0 1, poly_center_median = Vector 0 0 1\<rparr>"

definition sliver :: polygon where
  "sliver = \<lparr>loop_total = 3, poly_area = 1 / 100000, material_index = 0,
             poly_normal = Vector 0 0 1, poly_center_median = Vector 0 0 1\<rparr>"

definition inward :: polygon where
  "inward = \<lparr>loop_total = 4, poly_area = 1, material_index = 0,
             poly_normal = Vector 0 0 (- 1), poly_center_median = Vector 0 0 1\<rparr>"

definition two_points :: "Vector list" where
  "two_points = [Vector 0 0 1, Vector 0 0 (- 1)]"

definition three_pentagons :: mesh where
  "three_pentagons = \<lparr>polygons = [pentagon, quad, pentagon, pentagon], vertices = two_points\<rparr>"

definition three_slivers :: mesh where
  "three_slivers = \<lparr>polygons = [sliver, sliver, quad, sliver], vertices = two_points\<rparr>"

definition three_inward :: mesh where
  "three_inward = \<lparr>polygons = [quad, inward, inward, inward], vertices = two_points\<rparr>"

definition one_pentagon :: mesh where
  "one_pentagon = \<lparr>polygons = [pentagon], vertices = two_points\<rparr>"

definition cap_two :: geometry_config where
  "cap_two = geometry_defaults\<lparr>max_reported_faces := 2\<rparr>"

definition cap_zero :: geometry_config where
  "cap_zero = geometry_defaults\<lparr>max_reported_faces := 0\<rparr>"



definition BrokenChecker :: checker where
  "BrokenChecker =
     \<lparr>class_name = ''BrokenChecker'', name = ''Broken'',
      description = ''Fails on meshes without polygons'',
      default_severity = WARNING, supported_types = {''MESH''}, supports_exclusion = True,
      check = (\<lambda>obj. if polygons (obj_data obj) = []
                       then Inl (PyException ''RuntimeError'' ''mesh data unavailable'')
                       else Inr [])\<rparr>"

definition example_registry :: registry where
  "example_registry =
     \<lparr>checkers = [(''broken'', BrokenChecker), (''material'', MaterialChecker)],
      checker_classes = [(''broken'', BrokenChecker), (''material'', MaterialChecker)],
      log = []\<rparr>"

definition example_context :: bpy_context where
  "example_context =
     \<lparr>data_objects = [painted_no_faces, painted_unused], selected_objects = [],
      unity_validator_results = []\<rparr>"

definition example_operator :: validate_operator where
  "example_operator = \<lparr>selected_only = False, visible_only = True\<rparr>"


section \<open>ValidationResult: what construction rejects\<close>

text \<open>
  Claim C7, as the code has it: constructing a \<^verbatim>\<open>ValidationResult\<close> fails exactly when
  \<^verbatim>\<open>checker_name\<close> or \<^verbatim>\<open>message\<close> is the empty string, so every result that is
  constructed has these two fields non-empty.  The object name is stored as given and
  is not examined.
\<close>

theorem ValidationResult_fails_iff:
  "(isl (ValidationResult cn sev on msg det fh) \<longleftrightarrow> cn = [] \<or> msg = []) \<and>
   (\<forall>r. ValidationResult cn sev on msg det fh = Inr r \<longrightarrow>
      checker_name r \<noteq> [] \<and> message r \<noteq> [] \<and> object_name r = on)"
  by (auto simp: ValidationResult_def)

text \<open>The theorem at three inputs: a complete result, one with no checker name, one with no message.\<close>

theorem ValidationResult_fails_iff_witness:
  "\<not> isl (ValidationResult ''Geometry'' INFO ''Cube'' ''1 N-gon(s) found'' [] None) \<and>
   isl (ValidationResult '''' INFO ''Cube'' ''1 N-gon(s) found'' [] None) \<and>
   isl (ValidationResult ''Geometry'' INFO ''Cube'' '''' [] None) \<and>
   checker_name (projr (ValidationResult ''Geometry'' INFO ''Cube'' ''1 N-gon(s) found'' [] None))
     \<noteq> []"
  using ValidationResult_fails_iff [of "''Geometry''" INFO "''Cube''" "''1 N-gon(s) found''" "[]" None]
    ValidationResult_fails_iff [of "''''" INFO "''Cube''" "''1 N-gon(s) found''" "[]" None]
    ValidationResult_fails_iff [of "''Geometry''" INFO "''Cube''" "''''" "[]" None]
  by (simp add: ValidationResult_def)

text \<open>
  Claim C7 as stated fails: a result whose object name is the empty string is
  constructed without an error.
\<close>

theorem ValidationResult_accepts_empty_object_name:
  "ValidationResult ''Transform'' WARNING '''' ''Unapplied scale'' [] None =
     Inr \<lparr>checker_name = ''Transform'', severity = WARNING, object_name = '''',
          message = ''Unapplied scale'', details = [], fix_hint = None\<rparr>"
  by (simp add: ValidationResult_def)


section \<open>BaseChecker: exclusion\<close>

lemma get_id_Transform: "get_id TransformChecker_base = ''transform''"
  by (simp add: get_id_def TransformChecker_base_def endswith_def lower_def lower_char_def)

text \<open>
  Claim C6, as the code has it: the value \<^verbatim>\<open>is_excluded\<close> returns is true exactly when
  the checker's \<^verbatim>\<open>supports_exclusion\<close> is true and the object's properties hold a true
  value under the key \<^verbatim>\<open>unity_validator_exclude_<checker id>\<close>; in particular a checker
  with \<^verbatim>\<open>supports_exclusion\<close> false is never excluded.
\<close>

theorem is_excluded_iff:
  "truthy (is_excluded c obj) \<longleftrightarrow>
     supports_exclusion c \<and>
     (\<exists>v. obj_props obj (''unity_validator_exclude_'' @ get_id c) = Some v \<and> truthy v)"
  by (auto simp: is_excluded_def Let_def split: option.splits)

text \<open>The theorem at an object that carries the flag, for a checker with and without exclusion.\<close>

theorem is_excluded_iff_witness:
  "truthy (is_excluded TransformChecker_base
     (cube\<lparr>obj_props := [''unity_validator_exclude_transform'' \<mapsto> PyInt 1]\<rparr>)) \<and>
   \<not> truthy (is_excluded (TransformChecker_base\<lparr>supports_exclusion := False\<rparr>)
     (cube\<lparr>obj_props := [''unity_validator_exclude_transform'' \<mapsto> PyInt 1]\<rparr>))"
  using is_excluded_iff [of TransformChecker_base
      "cube\<lparr>obj_props := [''unity_validator_exclude_transform'' \<mapsto> PyInt 1]\<rparr>"]
    is_excluded_iff [of "TransformChecker_base\<lparr>supports_exclusion := False\<rparr>"
      "cube\<lparr>obj_props := [''unity_validator_exclude_transform'' \<mapsto> PyInt 1]\<rparr>"]
  by (simp add: get_id_Transform) (simp add: TransformChecker_base_def)

text \<open>
  Claim C6 as stated fails: a true value under the key \<^verbatim>\<open>exclude_<checker id>\<close> does not
  exclude a checker that supports exclusion.
\<close>

theorem is_excluded_ignores_short_key:
  "supports_exclusion TransformChecker_base \<and>
   obj_props (cube\<lparr>obj_props := [''exclude_transform'' \<mapsto> PyBool True]\<rparr>)
     (''exclude_'' @ get_id TransformChecker_base) = Some (PyBool True) \<and>
   truthy (PyBool True) \<and>
   \<not> truthy (is_excluded TransformChecker_base
        (cube\<lparr>obj_props := [''exclude_transform'' \<mapsto> PyBool True]\<rparr>))"
  by (simp add: is_excluded_def get_id_Transform) (simp add: TransformChecker_base_def)


section \<open>CheckerRegistry: registering an id again\<close>













section \<open>TransformChecker\<close>

lemma create_result_Transform:
  "msg \<noteq> [] \<Longrightarrow> create_result TransformChecker_base obj msg (Some sev) (Some det) fh =
     Inr \<lparr>checker_name = ''Transform'', severity = sev, object_name = obj_name obj,
          message = msg, details = det, fix_hint = fh\<rparr>"
  by (simp add: create_result_def ValidationResult_def TransformChecker_base_def)

lemma negative_axes_count:
  "length ((if x < 0 then [''X''] else []) @ (if y < 0 then [''Y''] else [])
       @ (if z < 0 then [''Z''] else []))
   = length (filter (\<lambda>c. c < 0) [x, y, (z::real)])"
  by simp

lemma check_negative_scale_Some:
  assumes "vec_x (obj_scale obj) < 0 \<or> vec_y (obj_scale obj) < 0 \<or> vec_z (obj_scale obj) < 0"
  shows "\<exists>r. check_negative_scale obj = Inr (Some r) \<and> severity r = ERROR \<and>
           map_of (details r) ''normals_inverted'' =
             Some (PyBool (odd (length (filter (\<lambda>c. c < 0) (components (obj_scale obj))))))"
proof -
  let ?axes = "(if vec_x (obj_scale obj) < 0 then [''X''] else [])
     @ (if vec_y (obj_scale obj) < 0 then [''Y''] else [])
     @ (if vec_z (obj_scale obj) < 0 then [''Z''] else [])"
  have ne: "?axes \<noteq> []" using assms by auto
  have len: "length ?axes = length (filter (\<lambda>c. c < 0) (components (obj_scale obj)))"
    unfolding components_def by (rule negative_axes_count)
  have "check_negative_scale obj =
     Inr (Some \<lparr>checker_name = ''Transform'', severity = ERROR, object_name = obj_name obj,
          message = ''Negative scale on '' @ join '', '' ?axes @ '' axis'',
          details = [(''scale'', vector_tuple (obj_scale obj)),
                     (''negative_axes'', PyList (map PyStr ?axes)),
                     (''normals_inverted'', PyBool (length ?axes mod 2 = 1))],
          fix_hint = Some ''Apply scale with Ctrl+A > Scale, or use Object > Apply > Scale''\<rparr>)"
    unfolding check_negative_scale_def Let_def using ne
    by (simp only: if_True create_result_Transform) (simp add: create_result_Transform)
  then show ?thesis
    by (auto simp: components_def)
qed


lemma is_vector_nearly_equal_3:
  "is_vector_nearly_equal v [a, b, c] tol \<longleftrightarrow>
     \<bar>vec_x v - a\<bar> < tol \<and> \<bar>vec_y v - b\<bar> < tol \<and> \<bar>vec_z v - c\<bar> < tol"
  by (simp add: is_vector_nearly_equal_def components_def is_nearly_equal_def)

lemma check_unapplied_scale_eq:
  "check_unapplied_scale F obj =
     (if is_vector_nearly_equal (obj_scale obj) [1, 1, 1] FLOAT_TOLERANCE then Inr None
      else Inr (Some \<lparr>checker_name = ''Transform'', severity = WARNING,
             object_name = obj_name obj,
             message = ''Unapplied scale: ('' @ fmt_3f F (vec_x (obj_scale obj)) @ '', ''
                 @ fmt_3f F (vec_y (obj_scale obj)) @ '', '' @ fmt_3f F (vec_z (obj_scale obj))
                 @ '')'',
             details = [(''scale'', vector_tuple (obj_scale obj)),
                        (''expected'', PyTuple [PyFloat 1, PyFloat 1, PyFloat 1])],
             fix_hint = Some ''Apply scale with Ctrl+A > Scale''\<rparr>))"
  by (simp add: check_unapplied_scale_def Let_def create_result_Transform)

lemma check_unapplied_rotation_eq:
  "check_unapplied_rotation F obj =
     (if is_vector_nearly_equal (obj_rotation_euler obj) [0, 0, 0] FLOAT_TOLERANCE then Inr None
      else Inr (Some \<lparr>checker_name = ''Transform'', severity = INFO,
             object_name = obj_name obj,
             message = ''Unapplied rotation: (''
                 @ str_float F (py_round (vec_x (obj_rotation_euler obj) * 572958 / 10000) 2)
                 @ degree_sign @ '', ''
                 @ str_float F (py_round (vec_y (obj_rotation_euler obj) * 572958 / 10000) 2)
                 @ degree_sign @ '', ''
                 @ str_float F (py_round (vec_z (obj_rotation_euler obj) * 572958 / 10000) 2)
                 @ degree_sign @ '')'',
             details = [(''rotation_euler'', vector_tuple (obj_rotation_euler obj)),
                        (''rotation_degrees'', PyTuple (map PyFloat
                           (map (\<lambda>r. py_round (r * 572958 / 10000) 2)
                              (components (obj_rotation_euler obj))))),
                        (''expected'', PyTuple [PyFloat 0, PyFloat 0, PyFloat 0])],
             fix_hint = Some ''Apply rotation with Ctrl+A > Rotation (if needed)''\<rparr>))"
  by (simp add: check_unapplied_rotation_def Let_def create_result_Transform components_def)

lemma scale_part:
  "\<exists>s. (if b then check_unapplied_scale F obj else Inr None) = Inr s \<and>
     (\<forall>r' \<in> set (append_result [] s). map_of (details r') ''normals_inverted'' = None)"
  by (simp add: check_unapplied_scale_eq)

lemma rotation_part:
  "\<exists>t. (if b then check_unapplied_rotation F obj else Inr None) = Inr t \<and>
     (\<forall>r' \<in> set (append_result [] t). map_of (details r') ''normals_inverted'' = None)"
  by (simp add: check_unapplied_rotation_eq)

text \<open>
  Claim C3: for every object whose scale has a negative component, the transform
  checker (with the negative-scale check enabled) emits one negative-scale finding,
  the first of its findings, at severity ERROR, above the checker's default WARNING,
  however many axes are negative; its details set \<^verbatim>\<open>normals_inverted\<close> to true
  exactly when the number of negative components is odd.  No other finding of the
  checker carries that key.
\<close>

theorem negative_scale_parity:
  assumes neg: "vec_x (obj_scale obj) < 0 \<or> vec_y (obj_scale obj) < 0 \<or> vec_z (obj_scale obj) < 0"
    and on: "cfg_check_negative_scale cfg"
  shows "\<exists>r rest. check_negative_scale obj = Inr (Some r) \<and>
           TransformChecker_check cfg F obj = Inr (r # rest) \<and>
           severity r = ERROR \<and>
           severity_value (default_severity TransformChecker_base) < severity_value (severity r) \<and>
           map_of (details r) ''normals_inverted'' =
             Some (PyBool (odd (length (filter (\<lambda>c. c < 0) (components (obj_scale obj)))))) \<and>
           (\<forall>r' \<in> set rest. map_of (details r') ''normals_inverted'' = None)"
proof -
  from check_negative_scale_Some [OF neg] obtain r where
    r: "check_negative_scale obj = Inr (Some r)" "severity r = ERROR"
      "map_of (details r) ''normals_inverted'' =
         Some (PyBool (odd (length (filter (\<lambda>c. c < 0) (components (obj_scale obj))))))"
    by blast
  from scale_part obtain s where
    s: "(if cfg_check_scale cfg then check_unapplied_scale F obj else Inr None) = Inr s"
      "\<forall>r' \<in> set (append_result [] s). map_of (details r') ''normals_inverted'' = None"
    by blast
  from rotation_part obtain t where
    t: "(if cfg_check_rotation cfg then check_unapplied_rotation F obj else Inr None) = Inr t"
      "\<forall>r' \<in> set (append_result [] t). map_of (details r') ''normals_inverted'' = None"
    by blast
  have "TransformChecker_check cfg F obj = Inr (r # append_result (append_result [] s) t)"
    using on r(1) s(1) t(1) unfolding TransformChecker_check_def
    by (cases s; cases t) simp_all
  moreover have "\<forall>r' \<in> set (append_result (append_result [] s) t).
      map_of (details r') ''normals_inverted'' = None"
    using s(2) t(2) by (cases s; cases t) simp_all
  ultimately show ?thesis
    using r by (simp add: TransformChecker_base_def)
qed

text \<open>The theorem at scale \<open>(-1, 1, 1)\<close> and at scale \<open>(-1, -1, 1)\<close>.\<close>

theorem negative_scale_parity_witness:
  "map_of (details (the (projr (check_negative_scale mirrored_x)))) ''normals_inverted''
     = Some (PyBool True) \<and>
   map_of (details (the (projr (check_negative_scale mirrored_xy)))) ''normals_inverted''
     = Some (PyBool False) \<and>
   severity (the (projr (check_negative_scale mirrored_x))) = ERROR \<and>
   severity (the (projr (check_negative_scale mirrored_xy))) = ERROR \<and>
   length (projr (TransformChecker_check transform_defaults example_format mirrored_x)) = 2"
  using negative_scale_parity [of mirrored_x transform_defaults example_format]
    negative_scale_parity [of mirrored_xy transform_defaults example_format]
  by (auto simp: mirrored_x_def mirrored_xy_def cube_def transform_defaults_def components_def
      TransformChecker_check_def check_unapplied_scale_eq check_unapplied_rotation_eq
      is_vector_nearly_equal_3 FLOAT_TOLERANCE_def)





section \<open>MaterialChecker\<close>

lemma create_result_Material:
  "msg \<noteq> [] \<Longrightarrow> create_result MaterialChecker_base obj msg (Some sev) (Some det) fh =
     Inr \<lparr>checker_name = ''Material'', severity = sev, object_name = obj_name obj,
          message = msg, details = det, fix_hint = fh\<rparr>"
  by (simp add: create_result_def ValidationResult_def MaterialChecker_base_def)

lemma enumerate_filter_all:
  "\<forall>x \<in> set xs. P x \<Longrightarrow>
   map fst (filter (\<lambda>(i, x). P x) (enumerate k xs)) = [k..<k + length xs]"
proof (induction xs arbitrary: k)
  case Nil
  show ?case by simp
next
  case (Cons a xs)
  have "[k..<k + length (a # xs)] = k # [Suc k..<Suc k + length xs]"
    by (subst upt_rec) simp
  with Cons show ?case by simp
qed

lemma enumerate_filter_none:
  "\<forall>x \<in> set xs. \<forall>i. \<not> P i x \<Longrightarrow> filter (\<lambda>(i, x). P i x) (enumerate k xs) = []"
  by (induction xs arbitrary: k) simp_all

lemma find_empty_slots_all:
  "\<forall>s \<in> set (obj_material_slots obj). slot_material s = None \<Longrightarrow>
   find_empty_slots obj = [0..<length (obj_material_slots obj)]"
  unfolding find_empty_slots_def
  using enumerate_filter_all [of "obj_material_slots obj" "\<lambda>s. slot_material s = None" 0]
  by simp

lemma find_unused_slots_all_empty:
  "\<forall>s \<in> set (obj_material_slots obj). slot_material s = None \<Longrightarrow>
   find_unused_slots obj m = []"
  unfolding find_unused_slots_def Let_def
  using enumerate_filter_none [of "obj_material_slots obj"
      "\<lambda>i s. slot_material s \<noteq> None \<and> i \<notin> set (map material_index (polygons m))" 0]
  by simp

text \<open>
  Claim C9: for every mesh object with at least one material slot, all of whose slots
  are empty, the material checker returns two findings: a WARNING whose details list
  every slot index as empty, then an ERROR saying that all material slots are empty.
\<close>

theorem all_slots_empty_two_findings:
  assumes mesh: "obj_type obj = ''MESH''"
    and slots: "obj_material_slots obj \<noteq> []"
    and empty: "\<forall>s \<in> set (obj_material_slots obj). slot_material s = None"
  shows "\<exists>w e. MaterialChecker_check obj = Inr [w, e] \<and>
           severity w = WARNING \<and>
           map_of (details w) ''empty_slot_indices''
             = Some (nat_list [0..<length (obj_material_slots obj)]) \<and>
           severity e = ERROR \<and> message e = ''All material slots are empty''"
proof -
  have e1: "find_empty_slots obj = [0..<length (obj_material_slots obj)]"
    using empty by (rule find_empty_slots_all)
  have e2: "find_empty_slots obj \<noteq> []"
    using slots by (simp add: e1)
  have u: "find_unused_slots obj (obj_data obj) = []"
    using empty by (rule find_unused_slots_all_empty)
  have all: "list_all (\<lambda>slot. slot_material slot = None) (obj_material_slots obj)"
    using empty by (simp add: list_all_iff)
  have "MaterialChecker_check obj =
     Inr [\<lparr>checker_name = ''Material'', severity = WARNING, object_name = obj_name obj,
           message = ''Empty material slot(s): '' @ join '', '' (map str_nat (find_empty_slots obj)),
           details = [(''empty_slot_indices'', nat_list (find_empty_slots obj)),
                      (''total_slots'', PyInt (int (length (obj_material_slots obj))))],
           fix_hint = Some ''Assign materials to empty slots or remove unused slots''\<rparr>,
          \<lparr>checker_name = ''Material'', severity = ERROR, object_name = obj_name obj,
           message = ''All material slots are empty'',
           details = [(''slot_count'', PyInt (int (length (obj_material_slots obj))))],
           fix_hint = Some ''Assign at least one material''\<rparr>]"
    unfolding MaterialChecker_check_def Let_def
    using mesh slots e2 u all by (simp add: create_result_Material)
  then show ?thesis by (simp add: e1)
qed

text \<open>The theorem at an object with two empty slots.\<close>

theorem all_slots_empty_two_findings_witness:
  "length (projr (MaterialChecker_check unpainted)) = 2 \<and>
   map severity (projr (MaterialChecker_check unpainted)) = [WARNING, ERROR] \<and>
   map_of (details (hd (projr (MaterialChecker_check unpainted)))) ''empty_slot_indices''
     = Some (PyList [PyInt 0, PyInt 1])"
proof -
  have "obj_type unpainted = ''MESH''" "obj_material_slots unpainted \<noteq> []"
    "\<forall>s \<in> set (obj_material_slots unpainted). slot_material s = None"
    by (simp_all add: unpainted_def cube_def empty_slot_def)
  from all_slots_empty_two_findings [OF this] show ?thesis
    by (auto simp: unpainted_def nat_list_def upt_rec numeral_2_eq_2)
qed

lemma find_unused_slots_single:
  assumes "obj_material_slots obj = [s]" "slot_material s \<noteq> None" "polygons m \<noteq> []"
    "\<forall>p \<in> set (polygons m). material_index p \<noteq> 0"
  shows "find_unused_slots obj m = [0]"
proof -
  have "0 \<notin> set (map material_index (polygons m))"
    using assms(4) by auto
  with assms(1-3) show ?thesis
    by (simp add: find_unused_slots_def Let_def)
qed

text \<open>
  Claim C8, as the code has it: for every mesh object with exactly one material slot,
  that slot holding a material, whose mesh has at least one polygon and no polygon
  with that slot's index, the material checker returns exactly one finding, the INFO
  finding that lists slot 0 as unused, and so no ERROR finding.
\<close>

theorem single_unused_slot_one_info:
  assumes mesh: "obj_type obj = ''MESH''"
    and slot: "obj_material_slots obj = [s]" "slot_material s \<noteq> None"
    and faces: "polygons (obj_data obj) \<noteq> []"
    and unused: "\<forall>p \<in> set (polygons (obj_data obj)). material_index p \<noteq> 0"
  shows "\<exists>r. MaterialChecker_check obj = Inr [r] \<and> severity r = INFO \<and>
           map_of (details r) ''unused_slot_indices'' = Some (nat_list [0])"
proof -
  have u: "find_unused_slots obj (obj_data obj) = [0]"
    using slot faces unused by (rule find_unused_slots_single)
  have e: "find_empty_slots obj = []"
    using slot by (simp add: find_empty_slots_def)
  have "MaterialChecker_check obj =
     Inr [\<lparr>checker_name = ''Material'', severity = INFO, object_name = obj_name obj,
           message = ''Unused material slot(s): ''
              @ (if slot_name s \<noteq> [] then slot_name s else ''Slot '' @ str_nat 0),
           details = [(''unused_slot_indices'', nat_list [0]),
                      (''unused_slot_names'', PyList [PyStr
                         (if slot_name s \<noteq> [] then slot_name s else ''Slot '' @ str_nat 0)])],
           fix_hint = Some ''Remove unused material slots or assign them to faces''\<rparr>]"
    unfolding MaterialChecker_check_def Let_def
    using mesh slot u e by (simp add: create_result_Material)
  then show ?thesis by simp
qed

text \<open>The theorem at an object with one slot and one face, the face using slot index 1.\<close>

theorem single_unused_slot_one_info_witness:
  "map severity (projr (MaterialChecker_check painted_unused)) = [INFO] \<and>
   map message (projr (MaterialChecker_check painted_unused)) = [''Unused material slot(s): Red'']"
proof -
  have "obj_type painted_unused = ''MESH''" "obj_material_slots painted_unused = [red_slot]"
    "slot_material red_slot \<noteq> None" "polygons (obj_data painted_unused) \<noteq> []"
    "\<forall>p \<in> set (polygons (obj_data painted_unused)). material_index p \<noteq> 0"
    by (simp_all add: painted_unused_def cube_def red_slot_def quad_def)
  from single_unused_slot_one_info [OF this] show ?thesis
    by (auto simp: MaterialChecker_check_def Let_def painted_unused_def cube_def red_slot_def
        quad_def find_empty_slots_def find_unused_slots_def create_result_Material)
qed

text \<open>
  Claim C8 as stated fails: an object with one slot holding a material and a mesh without
  polygons (so that no polygon uses the slot) gets no finding at all.
\<close>

theorem unused_slot_without_polygons_no_finding:
  "obj_type painted_no_faces = ''MESH'' \<and>
   length (obj_material_slots painted_no_faces) = 1 \<and>
   slot_material (hd (obj_material_slots painted_no_faces)) = Some ''Red'' \<and>
   filter (\<lambda>p. material_index p = 0) (polygons (obj_data painted_no_faces)) = [] \<and>
   MaterialChecker_check painted_no_faces = Inr []"
  by (simp add: MaterialChecker_check_def Let_def painted_no_faces_def cube_def red_slot_def
      find_empty_slots_def find_unused_slots_def)


section \<open>GeometryChecker and FaceOrientationChecker: capped listings\<close>

lemma collect_capped_take:
  "int (length found) < K \<Longrightarrow>
   collect_capped P K xs found = found @ take (nat K - length found) (filter P xs)"
proof (induction xs arbitrary: found)
  case Nil
  show ?case by simp
next
  case (Cons x xs)
  show ?case
  proof (cases "P x")
    case False
    with Cons show ?thesis by simp
  next
    case True
    show ?thesis
    proof (cases "int (length (found @ [x])) \<ge> K")
      case full: True
      with Cons.prems have "nat K - length found = 1" by simp
      with True full show ?thesis by (simp add: Let_def)
    next
      case more: False
      then have "int (length (found @ [x])) < K" by simp
      from Cons.IH [OF this] True more Cons.prems show ?thesis
        by (simp add: Let_def take_Cons' Suc_diff_Suc) 
    qed
  qed
qed

lemma collect_capped_first:
  "1 \<le> K \<Longrightarrow> collect_capped P K xs [] = take (nat K) (filter P xs)"
  using collect_capped_take [of "[]" K P xs] by simp

lemma collect_capped_nonempty:
  "filter P xs \<noteq> [] \<or> found \<noteq> [] \<Longrightarrow> collect_capped P K xs found \<noteq> []"
  by (induction xs arbitrary: found) (auto simp: Let_def)

lemma collect_capped_none:
  "filter P xs = [] \<Longrightarrow> collect_capped P K xs found = found"
  by (induction xs arbitrary: found) (auto simp: Let_def split: if_splits)

lemma filter_enumerate_snd:
  "map snd (filter (\<lambda>(i, x). P x) (enumerate k xs)) = filter P xs"
  by (induction xs arbitrary: k) simp_all

lemma length_filter_enumerate:
  "length (filter (\<lambda>(i, x). P x) (enumerate k xs)) = length (filter P xs)"
  using filter_enumerate_snd [of P k xs, THEN arg_cong, of length] by simp

lemma create_result_Geometry:
  "msg \<noteq> [] \<Longrightarrow> create_result GeometryChecker_base obj msg (Some sev) (Some det) fh =
     Inr \<lparr>checker_name = ''Geometry'', severity = sev, object_name = obj_name obj,
          message = msg, details = det, fix_hint = fh\<rparr>"
  by (simp add: create_result_def ValidationResult_def GeometryChecker_base_def)

lemma create_result_FaceOrientation:
  "msg \<noteq> [] \<Longrightarrow> create_result FaceOrientationChecker_base obj msg (Some sev) (Some det) fh =
     Inr \<lparr>checker_name = ''Face Orientation'', severity = sev, object_name = obj_name obj,
          message = msg, details = det, fix_hint = fh\<rparr>"
  by (simp add: create_result_def ValidationResult_def FaceOrientationChecker_base_def)

lemma str_nat_nonempty: "str_nat n \<noteq> []"
  by (subst str_nat.simps) simp

lemma capped_hits:
  assumes "1 \<le> K" "filter P xs \<noteq> []"
  shows "collect_capped (\<lambda>(i, x). P x) K (enumerate 0 xs) [] \<noteq> []"
    and "length (collect_capped (\<lambda>(i, x). P x) K (enumerate 0 xs) [])
           = min (length (filter P xs)) (nat K)"
proof -
  have "filter (\<lambda>(i, x). P x) (enumerate 0 xs) \<noteq> []"
    using assms(2) length_filter_enumerate [of P 0 xs] by (metis length_0_conv)
  then show "collect_capped (\<lambda>(i, x). P x) K (enumerate 0 xs) [] \<noteq> []"
    by (simp add: collect_capped_nonempty)
  show "length (collect_capped (\<lambda>(i, x). P x) K (enumerate 0 xs) [])
           = min (length (filter P xs)) (nat K)"
    using assms(1) by (simp add: collect_capped_first length_filter_enumerate)
qed

lemma check_ngons_listing:
  assumes K: "1 \<le> max_reported_faces cfg"
    and some: "filter (\<lambda>p. loop_total p > 4) (polygons m) \<noteq> []"
  shows "\<exists>r idx. check_ngons cfg obj m = Inr (Some r) \<and>
           map_of (details r) ''face_indices'' = Some (nat_list idx) \<and>
           length idx = min (length (filter (\<lambda>p. loop_total p > 4) (polygons m)))
                            (nat (max_reported_faces cfg)) \<and>
           map_of (details r) ''total_ngons''
             = Some (PyInt (int (length (filter (\<lambda>p. loop_total p > 4) (polygons m)))))"
proof -
  let ?hits = "collect_capped (\<lambda>(i, poly). loop_total poly > 4) (max_reported_faces cfg)
                 (enumerate 0 (polygons m)) []"
  from capped_hits [OF K some] have ne: "?hits \<noteq> []"
    and len: "length ?hits = min (length (filter (\<lambda>p. loop_total p > 4) (polygons m)))
                                  (nat (max_reported_faces cfg))"
    by simp_all
  have "\<exists>msg. msg \<noteq> [] \<and> check_ngons cfg obj m =
     Inr (Some \<lparr>checker_name = ''Geometry'', severity = WARNING, object_name = obj_name obj,
          message = msg,
          details = [(''total_ngons'',
                       PyInt (int (length (filter (\<lambda>p. loop_total p > 4) (polygons m))))),
                     (''face_indices'', nat_list (map fst ?hits)),
                     (''vertex_counts'', nat_list (map (\<lambda>(i, poly). loop_total poly) ?hits))],
          fix_hint = Some ''Select N-gons: Edit Mode > Select > All by Trait > Faces by Sides''\<rparr>)"
    unfolding check_ngons_def Let_def using ne
    by (simp add: create_result_Geometry str_nat_nonempty)
  then obtain msg where "check_ngons cfg obj m =
     Inr (Some \<lparr>checker_name = ''Geometry'', severity = WARNING, object_name = obj_name obj,
          message = msg,
          details = [(''total_ngons'',
                       PyInt (int (length (filter (\<lambda>p. loop_total p > 4) (polygons m))))),
                     (''face_indices'', nat_list (map fst ?hits)),
                     (''vertex_counts'', nat_list (map (\<lambda>(i, poly). loop_total poly) ?hits))],
          fix_hint = Some ''Select N-gons: Edit Mode > Select > All by Trait > Faces by Sides''\<rparr>)"
    by blast
  moreover have "length (map fst ?hits) = min (length (filter (\<lambda>p. loop_total p > 4) (polygons m)))
                            (nat (max_reported_faces cfg))"
    using len by simp
  ultimately show ?thesis by force
qed

lemma check_small_faces_listing:
  assumes K: "1 \<le> max_reported_faces cfg"
    and some: "filter (\<lambda>p. poly_area p < small_face_threshold cfg) (polygons m) \<noteq> []"
  shows "\<exists>r idx. check_small_faces cfg obj m = Inr (Some r) \<and>
           map_of (details r) ''face_indices'' = Some (nat_list idx) \<and>
           length idx = min (length (filter (\<lambda>p. poly_area p < small_face_threshold cfg) (polygons m)))
                            (nat (max_reported_faces cfg)) \<and>
           map_of (details r) ''total_small_faces''
             = Some (PyInt (int (length (filter (\<lambda>p. poly_area p < small_face_threshold cfg)
                                           (polygons m)))))"
proof -
  let ?hits = "collect_capped (\<lambda>(i, poly). poly_area poly < small_face_threshold cfg)
                 (max_reported_faces cfg) (enumerate 0 (polygons m)) []"
  from capped_hits [OF K some] have ne: "?hits \<noteq> []"
    and len: "length ?hits
                = min (length (filter (\<lambda>p. poly_area p < small_face_threshold cfg) (polygons m)))
                      (nat (max_reported_faces cfg))"
    by simp_all
  have "check_small_faces cfg obj m =
     Inr (Some \<lparr>checker_name = ''Geometry'', severity = INFO, object_name = obj_name obj,
          message = str_nat (length (filter (\<lambda>p. poly_area p < small_face_threshold cfg)
                                       (polygons m))) @ '' extremely small face(s) found'',
          details = [(''total_small_faces'',
                       PyInt (int (length (filter (\<lambda>p. poly_area p < small_face_threshold cfg)
                                             (polygons m))))),
                     (''face_indices'', nat_list (map fst ?hits)),
                     (''face_areas'', PyList (map PyFloat (map (\<lambda>(i, poly). poly_area poly) ?hits))),
                     (''threshold'', PyFloat (small_face_threshold cfg))],
          fix_hint = Some ''Consider merging or dissolving tiny faces''\<rparr>)"
    unfolding check_small_faces_def Let_def using ne
    by (simp add: create_result_Geometry str_nat_nonempty)
  moreover have "length (map fst ?hits)
      = min (length (filter (\<lambda>p. poly_area p < small_face_threshold cfg) (polygons m)))
            (nat (max_reported_faces cfg))"
    using len by simp
  ultimately show ?thesis by force
qed

lemma length_bm_faces: "length (bm_faces (from_mesh m)) = length (polygons m)"
  by (simp add: from_mesh_def)

lemma check_inverted_faces_Some:
  assumes verts: "vertices m \<noteq> []" and flagged: "flagged_faces m \<noteq> []"
  shows "\<exists>msg hint. check_inverted_faces K F obj m =
     Inr (Some \<lparr>checker_name = ''Face Orientation'',
          severity = (if real (length (flagged_faces m)) / real (length (polygons m)) < 5 / 100
                         \<and> length (flagged_faces m) < 5 then INFO else WARNING),
          object_name = obj_name obj, message = msg,
          details = [(''potentially_inverted_count'', PyInt (int (length (flagged_faces m)))),
                     (''total_faces'', PyInt (int (length (polygons m)))),
                     (''face_indices'', nat_list (map face_index
                        (collect_capped (points_inward (mesh_center (from_mesh m))) K
                           (bm_faces (from_mesh m)) []))),
                     (''inverted_ratio'', PyFloat (py_round
                        (real (length (flagged_faces m)) / real (length (polygons m))) 3))],
          fix_hint = hint\<rparr>)"
proof -
  let ?bm = "from_mesh m"
  let ?P = "points_inward (mesh_center ?bm)"
  have v: "bm_verts ?bm \<noteq> []" using verts by (simp add: from_mesh_def)
  have f: "filter ?P (bm_faces ?bm) = flagged_faces m"
    by (simp add: flagged_faces_def Let_def)
  have ne: "map face_index (collect_capped ?P K (bm_faces ?bm) []) \<noteq> []"
    using flagged f collect_capped_nonempty [of ?P "bm_faces ?bm" "[]" K] by simp
  have "bm_faces ?bm \<noteq> []"
    using flagged f by auto
  then have pos: "0 < length (bm_faces ?bm)" by simp
  show ?thesis
    unfolding check_inverted_faces_def Let_def
    using v ne pos
    by (simp add: f create_result_FaceOrientation str_nat_nonempty length_bm_faces)
qed

text \<open>
  Claim C5, as the code has it: for every mesh and every reporting cap \<open>K \<ge> 1\<close> (10
  by default for n-gons and small faces, 20 for face orientation), whenever a finding
  is emitted (some polygon offends; for face orientation the mesh has a vertex too),
  the index list in its details has length \<open>min (offending count) K\<close>, and the total
  it reports is the exact number of offending polygons.
\<close>

theorem truncated_listing:
  assumes cap: "1 \<le> max_reported_faces cfg" and K: "1 \<le> K"
  shows "(filter (\<lambda>p. loop_total p > 4) (polygons m) \<noteq> [] \<longrightarrow>
            (\<exists>r idx. check_ngons cfg obj m = Inr (Some r) \<and>
               map_of (details r) ''face_indices'' = Some (nat_list idx) \<and>
               length idx = min (length (filter (\<lambda>p. loop_total p > 4) (polygons m)))
                                (nat (max_reported_faces cfg)) \<and>
               map_of (details r) ''total_ngons''
                 = Some (PyInt (int (length (filter (\<lambda>p. loop_total p > 4) (polygons m))))))) \<and>
         (filter (\<lambda>p. poly_area p < small_face_threshold cfg) (polygons m) \<noteq> [] \<longrightarrow>
            (\<exists>r idx. check_small_faces cfg obj m = Inr (Some r) \<and>
               map_of (details r) ''face_indices'' = Some (nat_list idx) \<and>
               length idx
                 = min (length (filter (\<lambda>p. poly_area p < small_face_threshold cfg) (polygons m)))
                       (nat (max_reported_faces cfg)) \<and>
               map_of (details r) ''total_small_faces''
                 = Some (PyInt (int (length (filter (\<lambda>p. poly_area p < small_face_threshold cfg)
                                               (polygons m))))))) \<and>
         (vertices m \<noteq> [] \<and> flagged_faces m \<noteq> [] \<longrightarrow>
            (\<exists>r idx. check_inverted_faces K F obj m = Inr (Some r) \<and>
               map_of (details r) ''face_indices'' = Some (nat_list idx) \<and>
               length idx = min (length (flagged_faces m)) (nat K) \<and>
               map_of (details r) ''potentially_inverted_count''
                 = Some (PyInt (int (length (flagged_faces m))))))"
proof (intro conjI impI)
  assume "filter (\<lambda>p. loop_total p > 4) (polygons m) \<noteq> []"
  with cap show "\<exists>r idx. check_ngons cfg obj m = Inr (Some r) \<and>
               map_of (details r) ''face_indices'' = Some (nat_list idx) \<and>
               length idx = min (length (filter (\<lambda>p. loop_total p > 4) (polygons m)))
                                (nat (max_reported_faces cfg)) \<and>
               map_of (details r) ''total_ngons''
                 = Some (PyInt (int (length (filter (\<lambda>p. loop_total p > 4) (polygons m)))))"
    by (rule check_ngons_listing)
next
  assume "filter (\<lambda>p. poly_area p < small_face_threshold cfg) (polygons m) \<noteq> []"
  with cap show "\<exists>r idx. check_small_faces cfg obj m = Inr (Some r) \<and>
               map_of (details r) ''face_indices'' = Some (nat_list idx) \<and>
               length idx
                 = min (length (filter (\<lambda>p. poly_area p < small_face_threshold cfg) (polygons m)))
                       (nat (max_reported_faces cfg)) \<and>
               map_of (details r) ''total_small_faces''
                 = Some (PyInt (int (length (filter (\<lambda>p. poly_area p < small_face_threshold cfg)
                                               (polygons m)))))"
    by (rule check_small_faces_listing)
next
  assume a: "vertices m \<noteq> [] \<and> flagged_faces m \<noteq> []"
  let ?P = "points_inward (mesh_center (from_mesh m))"
  let ?hits = "collect_capped ?P K (bm_faces (from_mesh m)) []"
  from a check_inverted_faces_Some [of m K F obj] obtain msg hint where
    r: "check_inverted_faces K F obj m =
     Inr (Some \<lparr>checker_name = ''Face Orientation'',
          severity = (if real (length (flagged_faces m)) / real (length (polygons m)) < 5 / 100
                         \<and> length (flagged_faces m) < 5 then INFO else WARNING),
          object_name = obj_name obj, message = msg,
          details = [(''potentially_inverted_count'', PyInt (int (length (flagged_faces m)))),
                     (''total_faces'', PyInt (int (length (polygons m)))),
                     (''face_indices'', nat_list (map face_index ?hits)),
                     (''inverted_ratio'', PyFloat (py_round
                        (real (length (flagged_faces m)) / real (length (polygons m))) 3))],
          fix_hint = hint\<rparr>)"
    by blast
  have "length (map face_index ?hits) = min (length (flagged_faces m)) (nat K)"
    using K by (simp add: collect_capped_first flagged_faces_def Let_def)
  with r show "\<exists>r idx. check_inverted_faces K F obj m = Inr (Some r) \<and>
               map_of (details r) ''face_indices'' = Some (nat_list idx) \<and>
               length idx = min (length (flagged_faces m)) (nat K) \<and>
               map_of (details r) ''potentially_inverted_count''
                 = Some (PyInt (int (length (flagged_faces m))))"
    by force
qed

lemma center_two_points:
  "mesh_center (from_mesh \<lparr>polygons = ps, vertices = two_points\<rparr>) = Vector 0 0 0"
  by (simp add: mesh_center_def from_mesh_def two_points_def vec_add_def vec_div_def)

lemma points_inward_examples:
  "points_inward (Vector 0 0 0) \<lparr>face_index = i, face_normal = poly_normal inward,
      face_center_median = poly_center_median inward\<rparr>"
  "\<not> points_inward (Vector 0 0 0) \<lparr>face_index = i, face_normal = poly_normal quad,
      face_center_median = poly_center_median quad\<rparr>"
  by (simp_all add: points_inward_def Let_def inward_def quad_def vec_sub_def normalized_def
      dot_def vec_div_def)

lemma flagged_three_inward:
  "flagged_faces three_inward =
     [\<lparr>face_index = 1, face_normal = poly_normal inward, face_center_median = poly_center_median inward\<rparr>,
      \<lparr>face_index = 2, face_normal = poly_normal inward, face_center_median = poly_center_median inward\<rparr>,
      \<lparr>face_index = 3, face_normal = poly_normal inward, face_center_median = poly_center_median inward\<rparr>]"
  unfolding flagged_faces_def Let_def three_inward_def center_two_points
  by (simp add: from_mesh_def points_inward_examples)

text \<open>The theorem at cap 2 on meshes with three offending polygons each.\<close>

theorem truncated_listing_witness:
  "map_of (details (the (projr (check_ngons cap_two cube three_pentagons)))) ''face_indices''
     = Some (PyList [PyInt 0, PyInt 2]) \<and>
   map_of (details (the (projr (check_ngons cap_two cube three_pentagons)))) ''total_ngons''
     = Some (PyInt 3) \<and>
   map_of (details (the (projr (check_small_faces cap_two cube three_slivers)))) ''face_indices''
     = Some (PyList [PyInt 0, PyInt 1]) \<and>
   map_of (details (the (projr (check_small_faces cap_two cube three_slivers)))) ''total_small_faces''
     = Some (PyInt 3) \<and>
   map_of (details (the (projr (check_inverted_faces 2 example_format cube three_inward))))
     ''face_indices'' = Some (PyList [PyInt 1, PyInt 2]) \<and>
   map_of (details (the (projr (check_inverted_faces 2 example_format cube three_inward))))
     ''potentially_inverted_count'' = Some (PyInt 3)"
proof -
  have cap: "1 \<le> max_reported_faces cap_two" and K: "(1::int) \<le> 2"
    by (simp_all add: cap_two_def)
  have n: "filter (\<lambda>p. loop_total p > 4) (polygons three_pentagons) = [pentagon, pentagon, pentagon]"
    by (simp add: three_pentagons_def pentagon_def quad_def)
  have s: "filter (\<lambda>p. poly_area p < small_face_threshold cap_two) (polygons three_slivers)
             = [sliver, sliver, sliver]"
    by (simp add: three_slivers_def sliver_def quad_def cap_two_def geometry_defaults_def)
  have v: "vertices three_inward \<noteq> []"
    by (simp add: three_inward_def two_points_def)
  note t = truncated_listing [OF cap K, of three_pentagons cube example_format]
    truncated_listing [OF cap K, of three_slivers cube example_format]
    truncated_listing [OF cap K, of three_inward cube example_format]
  have ngons: "check_ngons cap_two cube three_pentagons =
      Inr (Some \<lparr>checker_name = ''Geometry'', severity = WARNING, object_name = ''Cube'',
           message = ''3 N-gon(s) found (showing first 2)'',
           details = [(''total_ngons'', PyInt 3),
                      (''face_indices'', PyList [PyInt 0, PyInt 2]),
                      (''vertex_counts'', PyList [PyInt 5, PyInt 5])],
           fix_hint = Some ''Select N-gons: Edit Mode > Select > All by Trait > Faces by Sides''\<rparr>)"
    using t(1) n
    by (simp add: check_ngons_def cap_two_def geometry_defaults_def three_pentagons_def
        pentagon_def quad_def Let_def create_result_def ValidationResult_def
        GeometryChecker_base_def nat_list_def cube_def str_nat.simps digit_char_def str_int_def)
  have small: "check_small_faces cap_two cube three_slivers =
      Inr (Some \<lparr>checker_name = ''Geometry'', severity = INFO, object_name = ''Cube'',
           message = ''3 extremely small face(s) found'',
           details = [(''total_small_faces'', PyInt 3),
                      (''face_indices'', PyList [PyInt 0, PyInt 1]),
                      (''face_areas'', PyList [PyFloat (1 / 100000), PyFloat (1 / 100000)]),
                      (''threshold'', PyFloat (1 / 10000))],
           fix_hint = Some ''Consider merging or dissolving tiny faces''\<rparr>)"
    using t(2) s
    by (simp add: check_small_faces_def cap_two_def geometry_defaults_def three_slivers_def
        sliver_def quad_def Let_def create_result_def ValidationResult_def
        GeometryChecker_base_def nat_list_def cube_def str_nat.simps digit_char_def)
  have inv: "map_of (details (the (projr (check_inverted_faces 2 example_format cube three_inward))))
       ''face_indices'' = Some (PyList [PyInt 1, PyInt 2]) \<and>
     map_of (details (the (projr (check_inverted_faces 2 example_format cube three_inward))))
       ''potentially_inverted_count'' = Some (PyInt 3)"
    using t(3) v flagged_three_inward
    unfolding check_inverted_faces_def Let_def three_inward_def center_two_points
    by (simp add: from_mesh_def points_inward_examples create_result_def ValidationResult_def
        FaceOrientationChecker_base_def nat_list_def two_points_def)
  from ngons small inv show ?thesis by simp
qed

text \<open>
  Claim C5 as stated fails at the cap \<open>K = 0\<close>: the loop tests the cap after it has
  appended, so one offending index is listed, not \<open>min 1 0 = 0\<close>.
\<close>

theorem zero_cap_lists_one_index:
  "max_reported_faces cap_zero = 0 \<and>
   length (filter (\<lambda>p. loop_total p > 4) (polygons one_pentagon)) = 1 \<and>
   check_ngons cap_zero cube one_pentagon =
      Inr (Some \<lparr>checker_name = ''Geometry'', severity = WARNING, object_name = ''Cube'',
           message = ''1 N-gon(s) found (showing first 0)'',
           details = [(''total_ngons'', PyInt 1),
                      (''face_indices'', PyList [PyInt 0]),
                      (''vertex_counts'', PyList [PyInt 5])],
           fix_hint = Some ''Select N-gons: Edit Mode > Select > All by Trait > Faces by Sides''\<rparr>)"
  by (simp add: check_ngons_def cap_zero_def geometry_defaults_def one_pentagon_def
      pentagon_def Let_def create_result_def ValidationResult_def
      GeometryChecker_base_def nat_list_def cube_def str_nat.simps digit_char_def str_int_def)


section \<open>FaceOrientationChecker: severity\<close>






section \<open>The validation operator: fault isolation\<close>

lemma run_checkers_eq:
  "run_checkers obj cs (rs, reps) =
     (rs @ concat (map (pair_results obj) cs), reps @ concat (map (pair_faults obj) cs))"
proof (induction cs arbitrary: rs reps)
  case Nil
  show ?case by simp
next
  case (Cons c cs)
  show ?case
    by (cases "check c obj")
      (simp_all add: Cons.IH pair_results_def pair_faults_def fault_report_def)
qed

lemma run_objects_eq:
  "run_objects objs cs (rs, reps) =
     (rs @ concat (map (\<lambda>obj. concat (map (pair_results obj) cs)) objs),
      reps @ concat (map (\<lambda>obj. concat (map (pair_faults obj) cs)) objs))"
  by (induction objs arbitrary: rs reps) (simp_all add: run_checkers_eq)

lemma recovered_base:
  "is_supported (recovered c) obj = is_supported c obj"
  "is_excluded (recovered c) obj = is_excluded c obj"
  by (simp_all add: recovered_def is_supported_def is_excluded_def get_id_def)

lemma pair_results_recovered: "pair_results obj (recovered c) = pair_results obj c"
  by (cases "check c obj") (simp_all add: pair_results_def recovered_base, simp_all add: recovered_def)

lemma get_all_recovered: "get_all (recovered_registry reg) = map recovered (get_all reg)"
  by (simp add: get_all_def recovered_registry_def case_prod_unfold)

lemma execute_finished:
  assumes "get_mesh_objects (selected_only self) (visible_only self) ctx \<noteq> []"
    and "get_all reg \<noteq> []"
  shows "execute self ctx reg =
     \<lparr>status = ''FINISHED'',
      reported = concat (map (\<lambda>obj. concat (map (pair_faults obj) (get_all reg)))
                   (get_mesh_objects (selected_only self) (visible_only self) ctx))
        @ [summary_report (concat (map (\<lambda>obj. concat (map (pair_results obj) (get_all reg)))
             (get_mesh_objects (selected_only self) (visible_only self) ctx)))],
      context_after = store_results ctx
        (concat (map (\<lambda>obj. concat (map (pair_results obj) (get_all reg)))
           (get_mesh_objects (selected_only self) (visible_only self) ctx)))\<rparr>"
  using assms by (simp add: execute_def Let_def run_objects_eq)

text \<open>
  Claim C1: in every run of the validation operator that has objects and checkers, an
  exception raised by \<^verbatim>\<open>check\<close> on one (object, checker) pair is caught by the
  operator: the run finishes, the pair contributes no result, and a WARNING report
  naming that checker and that object is made.  The stored results are the
  concatenation, in order, of what each pair contributes by itself, so they are the
  results of the same run with every faulting \<^verbatim>\<open>check\<close> replaced by one that returns
  nothing: no other pair's results change.
\<close>

theorem fault_isolation:
  assumes objs: "get_mesh_objects (selected_only self) (visible_only self) ctx \<noteq> []"
    and cs: "get_all reg \<noteq> []"
  shows "status (execute self ctx reg) = ''FINISHED'' \<and>
     unity_validator_results (context_after (execute self ctx reg)) =
       map store_item (concat (map (\<lambda>obj. concat (map (pair_results obj) (get_all reg)))
         (get_mesh_objects (selected_only self) (visible_only self) ctx))) \<and>
     unity_validator_results (context_after (execute self ctx (recovered_registry reg))) =
       unity_validator_results (context_after (execute self ctx reg)) \<and>
     (\<forall>obj \<in> set (get_mesh_objects (selected_only self) (visible_only self) ctx).
        \<forall>c \<in> set (get_all reg). \<forall>e.
          is_supported c obj \<and> \<not> truthy (is_excluded c obj) \<and> check c obj = Inl e \<longrightarrow>
            pair_results obj c = [] \<and>
            (''WARNING'', ''Checker '' @ quote @ name c @ quote @ '' failed on '' @ quote
                @ obj_name obj @ quote @ '': '' @ exc_str e)
              \<in> set (reported (execute self ctx reg)))"
proof -
  let ?objects = "get_mesh_objects (selected_only self) (visible_only self) ctx"
  note ex = execute_finished [OF objs cs]
  have cs': "get_all (recovered_registry reg) \<noteq> []"
    using cs by (simp add: get_all_recovered)
  note ex' = execute_finished [OF objs cs']
  have same: "unity_validator_results (context_after (execute self ctx (recovered_registry reg))) =
       unity_validator_results (context_after (execute self ctx reg))"
    by (simp add: ex ex' store_results_def get_all_recovered comp_def pair_results_recovered)
  have faults: "pair_results obj c = [] \<and>
            (''WARNING'', ''Checker '' @ quote @ name c @ quote @ '' failed on '' @ quote
                @ obj_name obj @ quote @ '': '' @ exc_str e)
              \<in> set (reported (execute self ctx reg))"
    if "obj \<in> set ?objects" "c \<in> set (get_all reg)"
      "is_supported c obj \<and> \<not> truthy (is_excluded c obj) \<and> check c obj = Inl e"
    for obj c e
  proof -
    from that(3) have "pair_results obj c = []"
      and pf: "pair_faults obj c = [fault_report obj c (exc_str e)]"
      by (simp_all add: pair_results_def pair_faults_def)
    moreover have "fault_report obj c (exc_str e)
        \<in> set (concat (map (\<lambda>obj. concat (map (pair_faults obj) (get_all reg))) ?objects))"
    proof -
      have "fault_report obj c (exc_str e) \<in> set (pair_faults obj c)"
        using pf by simp
      with that(1,2) show ?thesis by auto
    qed
    ultimately show ?thesis
      by (simp add: ex fault_report_def)
  qed
  show ?thesis
    using same faults by (simp add: ex store_results_def)
qed

lemma example_objects:
  "get_mesh_objects (selected_only example_operator) (visible_only example_operator)
     example_context = [painted_no_faces, painted_unused]"
  by (simp add: get_mesh_objects_def example_operator_def example_context_def
      painted_no_faces_def painted_unused_def cube_def)

lemma example_checkers: "get_all example_registry = [BrokenChecker, MaterialChecker]"
  by (simp add: get_all_def example_registry_def)

lemma example_material_checks:
  "MaterialChecker_check painted_no_faces = Inr []"
  "MaterialChecker_check painted_unused =
     Inr [\<lparr>checker_name = ''Material'', severity = INFO, object_name = ''Cube'',
           message = ''Unused material slot(s): Red'',
           details = [(''unused_slot_indices'', PyList [PyInt 0]),
                      (''unused_slot_names'', PyList [PyStr ''Red''])],
           fix_hint = Some ''Remove unused material slots or assign them to faces''\<rparr>]"
  by (simp_all add: MaterialChecker_check_def Let_def painted_no_faces_def painted_unused_def
      cube_def red_slot_def quad_def find_empty_slots_def find_unused_slots_def
      create_result_def ValidationResult_def MaterialChecker_base_def nat_list_def)

lemma example_pairs:
  "pair_results painted_no_faces BrokenChecker = []"
  "pair_results painted_no_faces MaterialChecker = []"
  "pair_results painted_unused BrokenChecker = []"
  "pair_results painted_unused MaterialChecker =
     [\<lparr>checker_name = ''Material'', severity = INFO, object_name = ''Cube'',
           message = ''Unused material slot(s): Red'',
           details = [(''unused_slot_indices'', PyList [PyInt 0]),
                      (''unused_slot_names'', PyList [PyStr ''Red''])],
           fix_hint = Some ''Remove unused material slots or assign them to faces''\<rparr>]"
  by (simp_all add: pair_results_def is_supported_def is_excluded_def BrokenChecker_def
      MaterialChecker_def MaterialChecker_base_def checker_base.extend_def checker.fields_def
      example_material_checks)
    (simp_all add: painted_no_faces_def painted_unused_def cube_def)

lemma example_faulting_pair:
  "is_supported BrokenChecker painted_no_faces"
  "\<not> truthy (is_excluded BrokenChecker painted_no_faces)"
  "check BrokenChecker painted_no_faces = Inl (PyException ''RuntimeError'' ''mesh data unavailable'')"
  by (simp_all add: is_supported_def is_excluded_def BrokenChecker_def painted_no_faces_def
      cube_def)

text \<open>
  The theorem at two objects and two checkers, the first checker raising on the first
  object.
\<close>

theorem fault_isolation_witness:
  "status (execute example_operator example_context example_registry) = ''FINISHED'' \<and>
   unity_validator_results (context_after
       (execute example_operator example_context example_registry)) =
     [\<lparr>item_checker_name = ''Material'', item_severity = ''INFO'', item_object_name = ''Cube'',
       item_message = ''Unused material slot(s): Red'',
       item_fix_hint = ''Remove unused material slots or assign them to faces''\<rparr>] \<and>
   (''WARNING'', ''Checker '' @ quote @ ''Broken'' @ quote @ '' failed on '' @ quote @ ''Cube''
       @ quote @ '': mesh data unavailable'')
     \<in> set (reported (execute example_operator example_context example_registry))"
proof -
  have objs: "get_mesh_objects (selected_only example_operator) (visible_only example_operator)
      example_context \<noteq> []"
    by (simp add: example_objects)
  have cs: "get_all example_registry \<noteq> []"
    by (simp add: example_checkers)
  have names: "name BrokenChecker = ''Broken''" "obj_name painted_no_faces = ''Cube''"
    by (simp_all add: BrokenChecker_def painted_no_faces_def cube_def)
  from fault_isolation [OF objs cs] have
    fin: "status (execute example_operator example_context example_registry) = ''FINISHED''"
    and res: "unity_validator_results (context_after
         (execute example_operator example_context example_registry)) =
       map store_item (concat (map (\<lambda>obj. concat (map (pair_results obj)
         (get_all example_registry)))
         (get_mesh_objects (selected_only example_operator) (visible_only example_operator)
            example_context)))"
    and faults: "\<forall>obj \<in> set (get_mesh_objects (selected_only example_operator)
           (visible_only example_operator) example_context).
        \<forall>c \<in> set (get_all example_registry). \<forall>e.
          is_supported c obj \<and> \<not> truthy (is_excluded c obj) \<and> check c obj = Inl e \<longrightarrow>
            pair_results obj c = [] \<and>
            (''WARNING'', ''Checker '' @ quote @ name c @ quote @ '' failed on '' @ quote
                @ obj_name obj @ quote @ '': '' @ exc_str e)
              \<in> set (reported (execute example_operator example_context example_registry))"
    by blast+
  have "painted_no_faces \<in> set (get_mesh_objects (selected_only example_operator)
           (visible_only example_operator) example_context)"
    "BrokenChecker \<in> set (get_all example_registry)"
    by (simp_all add: example_objects example_checkers)
  with faults example_faulting_pair have
    "(''WARNING'', ''Checker '' @ quote @ name BrokenChecker @ quote @ '' failed on '' @ quote
        @ obj_name painted_no_faces @ quote @ '': ''
        @ exc_str (PyException ''RuntimeError'' ''mesh data unavailable''))
      \<in> set (reported (execute example_operator example_context example_registry))"
    by blast
  then have rep: "(''WARNING'', ''Checker '' @ quote @ ''Broken'' @ quote @ '' failed on '' @ quote
       @ ''Cube'' @ quote @ '': mesh data unavailable'')
     \<in> set (reported (execute example_operator example_context example_registry))"
    by (simp add: names)
  from res have "unity_validator_results (context_after
       (execute example_operator example_context example_registry)) =
     [\<lparr>item_checker_name = ''Material'', item_severity = ''INFO'', item_object_name = ''Cube'',
       item_message = ''Unused material slot(s): Red'',
       item_fix_hint = ''Remove unused material slots or assign them to faces''\<rparr>]"
    by (simp add: example_objects example_checkers example_pairs store_item_def)
  with fin rep show ?thesis by blast
qed

end
